theory Spec2Isabelle
  imports Complex_Main "HOL-Library.Word"
begin

unbundle bit_operations_syntax

section \<open>The TinyLev driver sketch for the Teensy 4.0\<close>

text \<open>
  The repository holds one Arduino sketch in two nearly identical copies
  (\<^verbatim>\<open>nyutinylev_simple.ino\<close> with \<^verbatim>\<open>setAmp\<close>, \<^verbatim>\<open>setFreq\<close>, \<^verbatim>\<open>showFlexPWMInit\<close>, and an older
  copy with \<^verbatim>\<open>setAmplitude\<close>, \<^verbatim>\<open>setFrequency\<close>, \<^verbatim>\<open>ShowFlexPWMInit\<close>). The bodies of the
  functions are the same statement for statement, so one embedding covers both; the
  names of the newer copy are used.

  The sketch is a sequence of calls into the Teensy core (\<^verbatim>\<open>analogWrite\<close>,
  \<^verbatim>\<open>analogWriteFrequency\<close>, \<^verbatim>\<open>analogWriteRes\<close>, \<^verbatim>\<open>pinMode\<close>, \<^verbatim>\<open>digitalWrite\<close>, \<^verbatim>\<open>Serial\<close>,
  \<^verbatim>\<open>millis\<close>) and of read-modify-write accesses to memory-mapped FlexPWM registers.
  The embedding passes an explicit machine state through these calls.
\<close>

subsection \<open>Constants\<close>

definition FREQUENCY :: real where
  "FREQUENCY = 40000"

definition PWMRES :: nat where
  "PWMRES = 8"

definition PWMSTEPS :: int where
  "PWMSTEPS = 256"

text \<open>The macro is \<^verbatim>\<open>0x0200;\<close>: the stray semicolon only adds an empty statement.\<close>

definition INVERTB :: "16 word" where
  "INVERTB = 0x0200"

definition upperA :: int where
  "upperA = 2"

definition upperB :: int where
  "upperB = 3"

definition lowerA :: int where
  "lowerA = 6"

definition lowerB :: int where
  "lowerB = 9"

text \<open>
  \<^verbatim>\<open>LED_BUILTIN\<close>, \<^verbatim>\<open>LOW\<close>, \<^verbatim>\<open>HIGH\<close> and \<^verbatim>\<open>OUTPUT\<close> come from the Teensy core headers, not from
  the sketch; the values are those of the Teensy 4.0 core. No result below depends on
  the number chosen for the LED pin.
\<close>

definition LED_BUILTIN :: int where
  "LED_BUILTIN = 13"

definition LOW :: int where
  "LOW = 0"

definition HIGH :: int where
  "HIGH = 1"

definition OUTPUT :: int where
  "OUTPUT = 1"

definition ledPin :: int where
  "ledPin = LED_BUILTIN"

text \<open>\<^verbatim>\<open>const long blinkDuration = 500\<close>: a signed 32-bit value on this target.\<close>

definition blinkDuration :: int where
  "blinkDuration = 500"

subsection \<open>Machine state\<close>

text \<open>
  The eight output control registers the sketch names. Each is a
  \<^verbatim>\<open>volatile uint16_t\<close>.
\<close>

datatype octrl_reg =
    FLEXPWM2_SM0OCTRL | FLEXPWM2_SM1OCTRL | FLEXPWM2_SM2OCTRL | FLEXPWM2_SM3OCTRL
  | FLEXPWM4_SM0OCTRL | FLEXPWM4_SM1OCTRL | FLEXPWM4_SM2OCTRL | FLEXPWM4_SM3OCTRL

text \<open>
  Every write the sketch sends to the hardware, in program order. Serial output is kept
  apart, in the field \<open>serial\<close>.
\<close>

datatype event =
    PinMode int int
  | AnalogWriteRes nat
  | AnalogWriteFrequency int real
  | AnalogWrite int int
  | OctrlWrite octrl_reg "16 word"
  | DigitalWrite int int

text \<open>
  \<^item> \<open>octrl\<close>: the contents of the control registers;
  \<^item> \<open>duty\<close>: per pin, the value last handed to \<^verbatim>\<open>analogWrite\<close>;
  \<^item> \<open>freq\<close>: per pin, the frequency last handed to \<^verbatim>\<open>analogWriteFrequency\<close>
    (a C \<^verbatim>\<open>float\<close>; the sketch only passes it on, it never computes with it);
  \<^item> \<open>pin_out\<close>: per pin, the level last handed to \<^verbatim>\<open>digitalWrite\<close>;
  \<^item> \<open>lastBlink\<close>, \<open>ledState\<close>: the sketch's two mutable globals
    (\<^verbatim>\<open>unsigned long\<close> is 32 bits wide on the Teensy 4.0);
  \<^item> \<open>serial\<close>: the characters sent to \<^verbatim>\<open>Serial\<close> so far;
  \<^item> \<open>trace\<close>: the hardware writes so far, oldest first.
\<close>

record machine =
  octrl :: "octrl_reg \<Rightarrow> 16 word"
  duty :: "int \<Rightarrow> int"
  freq :: "int \<Rightarrow> real"
  pin_out :: "int \<Rightarrow> int"
  lastBlink :: "32 word"
  ledState :: int
  serial :: string
  trace :: "event list"

subsection \<open>The calls into the Teensy core\<close>

text \<open>
  The core library is not part of the repository. Each call is modelled by what the
  sketch hands to it: the call is appended to the trace and the value is recorded for
  the pin. In particular the core's PWM calls are taken not to write the \<^verbatim>\<open>OCTRL\<close>
  registers, which only the sketch's own \<^verbatim>\<open>|=\<close> statements touch.
\<close>

definition pinMode :: "int \<Rightarrow> int \<Rightarrow> machine \<Rightarrow> machine" where
  "pinMode pin mode s = s\<lparr>trace := trace s @ [PinMode pin mode]\<rparr>"

definition analogWriteRes :: "nat \<Rightarrow> machine \<Rightarrow> machine" where
  "analogWriteRes bits s = s\<lparr>trace := trace s @ [AnalogWriteRes bits]\<rparr>"

definition analogWriteFrequency :: "int \<Rightarrow> real \<Rightarrow> machine \<Rightarrow> machine" where
  "analogWriteFrequency pin frq s =
     s\<lparr>freq := (freq s)(pin := frq), trace := trace s @ [AnalogWriteFrequency pin frq]\<rparr>"

definition analogWrite :: "int \<Rightarrow> int \<Rightarrow> machine \<Rightarrow> machine" where
  "analogWrite pin val s =
     s\<lparr>duty := (duty s)(pin := val), trace := trace s @ [AnalogWrite pin val]\<rparr>"

definition digitalWrite :: "int \<Rightarrow> int \<Rightarrow> machine \<Rightarrow> machine" where
  "digitalWrite pin val s =
     s\<lparr>pin_out := (pin_out s)(pin := val), trace := trace s @ [DigitalWrite pin val]\<rparr>"

definition Serial_print :: "string \<Rightarrow> machine \<Rightarrow> machine" where
  "Serial_print txt s = s\<lparr>serial := serial s @ txt\<rparr>"

text \<open>\<^verbatim>\<open>println\<close> ends the line with carriage return and line feed.\<close>

definition Serial_println :: "string \<Rightarrow> machine \<Rightarrow> machine" where
  "Serial_println txt s = Serial_print (txt @ [CHR 0x0D, CHR 0x0A]) s"

text \<open>The statement \<^verbatim>\<open>REG |= v;\<close> on a 16-bit register: read, OR, write back.\<close>

definition or_into :: "16 word \<Rightarrow> 16 word \<Rightarrow> 16 word" where
  "or_into v old = old OR v"

definition octrl_or :: "octrl_reg \<Rightarrow> 16 word \<Rightarrow> machine \<Rightarrow> machine" where
  "octrl_or r v s =
     s\<lparr>octrl := (octrl s)(r := or_into v (octrl s r)),
       trace := trace s @ [OctrlWrite r (or_into v (octrl s r))]\<rparr>"

subsection \<open>Number formatting of \<^verbatim>\<open>printf\<close>\<close>

definition digit_char :: "nat \<Rightarrow> char" where
  "digit_char n = ''0123456789ABCDEF'' ! (n mod 16)"

text \<open>\<^verbatim>\<open>%u\<close>: decimal, no padding.\<close>

fun dec :: "nat \<Rightarrow> string" where
  "dec n = (if n < 10 then [digit_char n] else dec (n div 10) @ [digit_char (n mod 10)])"

declare dec.simps [simp del]

text \<open>\<^verbatim>\<open>%04X\<close> of a 16-bit value: four upper-case hexadecimal digits, zero padded.\<close>

definition hex4 :: "16 word \<Rightarrow> string" where
  "hex4 w = map (\<lambda>k. digit_char (unat (drop_bit k w AND 0xF))) [12, 8, 4, 0]"

text \<open>
  Reading four hexadecimal digits back. This is not code of the sketch; it serves to say
  that the digits printed by \<^verbatim>\<open>%04X\<close> determine the register value.
\<close>

definition hex_val :: "char \<Rightarrow> nat" where
  "hex_val c = length (takeWhile (\<lambda>d. d \<noteq> c) ''0123456789ABCDEF'')"

definition unhex4 :: "string \<Rightarrow> 16 word" where
  "unhex4 cs = word_of_nat (foldl (\<lambda>acc c. 16 * acc + hex_val c) 0 cs)"

subsection \<open>The functions of the sketch\<close>

text \<open>
  \<^verbatim>\<open>void setAmp(uint16_t amp)\<close>. The parameter of \<^verbatim>\<open>analogWrite\<close> is an \<^verbatim>\<open>int\<close>, so \<open>amp\<close> is
  passed on with its unsigned value. There is no check and no result.
\<close>

definition setAmp :: "16 word \<Rightarrow> machine \<Rightarrow> machine" where
  "setAmp amp s =
     (let s1 = Serial_print ([CHR 0x0A] @ ''amplitude: '' @ dec (unat amp) @ '' '') s;
          s2 = analogWrite upperA (uint amp) s1;
          s3 = analogWrite upperB (uint amp) s2;
          s4 = analogWrite lowerA (uint amp) s3;
          s5 = analogWrite lowerB (uint amp) s4;
          s6 = octrl_or FLEXPWM4_SM2OCTRL INVERTB s5
      in octrl_or FLEXPWM2_SM2OCTRL INVERTB s6)"

text \<open>\<^verbatim>\<open>void setFreq(float frq)\<close>.\<close>

definition setFreq :: "real \<Rightarrow> machine \<Rightarrow> machine" where
  "setFreq frq s =
     (let s1 = analogWriteFrequency upperA frq s;
          s2 = analogWriteFrequency upperB frq s1;
          s3 = analogWriteFrequency lowerA frq s2
      in analogWriteFrequency lowerB frq s3)"

text \<open>\<^verbatim>\<open>void showFlexPWMInit(void)\<close>: what it sends to \<^verbatim>\<open>Serial\<close>, and the function.\<close>

definition report :: "(octrl_reg \<Rightarrow> 16 word) \<Rightarrow> string" where
  "report regs =
     ''FlexPWM2:'' @ [CHR 0x0D, CHR 0x0A]
     @ ''  SM0OCTL: '' @ hex4 (regs FLEXPWM2_SM0OCTRL) @ '' ''
     @ ''  SM1OCTL: '' @ hex4 (regs FLEXPWM2_SM1OCTRL) @ '' ''
     @ ''  SM2OCTL: '' @ hex4 (regs FLEXPWM2_SM2OCTRL) @ '' ''
     @ ''  SM3OCTL: '' @ hex4 (regs FLEXPWM2_SM3OCTRL) @ [CHR 0x0A]
     @ ''FlexPWM4:'' @ [CHR 0x0D, CHR 0x0A]
     @ ''  SM0OCTL: '' @ hex4 (regs FLEXPWM4_SM0OCTRL) @ '' ''
     @ ''  SM1OCTL: '' @ hex4 (regs FLEXPWM4_SM1OCTRL) @ '' ''
     @ ''  SM2OCTL: '' @ hex4 (regs FLEXPWM4_SM2OCTRL) @ '' ''
     @ ''  SM3OCTL: '' @ hex4 (regs FLEXPWM4_SM3OCTRL) @ [CHR 0x0A]"

definition showFlexPWMInit :: "machine \<Rightarrow> machine" where
  "showFlexPWMInit s =
     (let s1 = Serial_println ''FlexPWM2:'' s;
          s2 = Serial_print (''  SM0OCTL: '' @ hex4 (octrl s1 FLEXPWM2_SM0OCTRL) @ '' '') s1;
          s3 = Serial_print (''  SM1OCTL: '' @ hex4 (octrl s2 FLEXPWM2_SM1OCTRL) @ '' '') s2;
          s4 = Serial_print (''  SM2OCTL: '' @ hex4 (octrl s3 FLEXPWM2_SM2OCTRL) @ '' '') s3;
          s5 = Serial_print (''  SM3OCTL: '' @ hex4 (octrl s4 FLEXPWM2_SM3OCTRL) @ [CHR 0x0A]) s4;
          s6 = Serial_println ''FlexPWM4:'' s5;
          s7 = Serial_print (''  SM0OCTL: '' @ hex4 (octrl s6 FLEXPWM4_SM0OCTRL) @ '' '') s6;
          s8 = Serial_print (''  SM1OCTL: '' @ hex4 (octrl s7 FLEXPWM4_SM1OCTRL) @ '' '') s7;
          s9 = Serial_print (''  SM2OCTL: '' @ hex4 (octrl s8 FLEXPWM4_SM2OCTRL) @ '' '') s8
      in Serial_print (''  SM3OCTL: '' @ hex4 (octrl s9 FLEXPWM4_SM3OCTRL) @ [CHR 0x0A]) s9)"

text \<open>
  \<^verbatim>\<open>void blink(void)\<close>. The reading of \<^verbatim>\<open>millis()\<close> is the parameter \<open>now\<close>. The subtraction
  is on \<^verbatim>\<open>unsigned long\<close> and wraps; \<^verbatim>\<open>blinkDuration\<close> is converted to \<^verbatim>\<open>unsigned long\<close> for the
  comparison. \<^verbatim>\<open>!ledState\<close> is 1 for 0 and 0 for everything else.
\<close>

definition lnot :: "int \<Rightarrow> int" where
  "lnot x = (if x = 0 then 1 else 0)"

definition blink :: "32 word \<Rightarrow> machine \<Rightarrow> machine" where
  "blink now s =
     (let getTime = now
      in if getTime - lastBlink s \<ge> word_of_int blinkDuration
         then (let s1 = s\<lparr>lastBlink := getTime\<rparr>;
                   s2 = s1\<lparr>ledState := lnot (ledState s1)\<rparr>
               in digitalWrite ledPin (ledState s2) s2)
         else s)"

text \<open>
  \<^verbatim>\<open>void setup(void)\<close>, here \<open>setup_sketch\<close> (\<open>setup\<close> is a keyword). \<^verbatim>\<open>Serial.begin\<close> and \<^verbatim>\<open>delay\<close> change nothing that the state records.
  The argument of \<^verbatim>\<open>setAmp\<close> is the \<^verbatim>\<open>int\<close> \<^verbatim>\<open>PWMSTEPS/2 - 1\<close> converted to \<^verbatim>\<open>uint16_t\<close>. In
  \<^verbatim>\<open>nyutinylev_simple.ino\<close> the first dump is typed \<^verbatim>\<open>s     howFlexPWMInit();\<close>; it is read
  as the call \<^verbatim>\<open>showFlexPWMInit();\<close> that the other copy of the sketch has at this place.
\<close>

definition setup_sketch :: "machine \<Rightarrow> machine" where
  "setup_sketch s =
     (let s1 = pinMode ledPin OUTPUT s;
          s2 = Serial_print ([CHR 0x0A] @ ''NYU TinyLev Driver'') s1;
          s3 = analogWriteRes PWMRES s2;
          s4 = Serial_print ([CHR 0x0A] @ ''before initialization:'') s3;
          s5 = showFlexPWMInit s4;
          s6 = setFreq FREQUENCY s5;
          s7 = setAmp (word_of_int (PWMSTEPS div 2 - 1)) s6;
          s8 = Serial_print ([CHR 0x0A] @ ''after initialization:'') s7
      in showFlexPWMInit s8)"

text \<open>\<^verbatim>\<open>void loop()\<close>: one pass, with the reading of \<^verbatim>\<open>millis()\<close> in that pass.\<close>

definition loop :: "32 word \<Rightarrow> machine \<Rightarrow> machine" where
  "loop now s = blink now s"

subsection \<open>Runs of the program\<close>

text \<open>The operations of the sketch, and a sequence of them applied in order.\<close>

datatype operation =
    Setup
  | SetFreq real
  | SetAmp "16 word"
  | ShowFlexPWMInit
  | Blink "32 word"

fun exec :: "operation \<Rightarrow> machine \<Rightarrow> machine" where
  "exec Setup s = setup_sketch s"
| "exec (SetFreq frq) s = setFreq frq s"
| "exec (SetAmp amp) s = setAmp amp s"
| "exec ShowFlexPWMInit s = showFlexPWMInit s"
| "exec (Blink now) s = blink now s"

fun run :: "operation list \<Rightarrow> machine \<Rightarrow> machine" where
  "run [] s = s"
| "run (x # xs) s = run xs (exec x s)"

text \<open>
  A state for the evaluated examples. \<open>lastBlink\<close> and \<open>ledState\<close> are the initialisers of
  the sketch; the hardware fields are all zero, which the sketch does not fix. The
  theorems below hold for every state.
\<close>

definition power_on :: machine where
  "power_on = \<lparr>octrl = (\<lambda>_. 0), duty = (\<lambda>_. 0), freq = (\<lambda>_. 0), pin_out = (\<lambda>_. 0),
     lastBlink = 0, ledState = LOW, serial = [], trace = []\<rparr>"

subsection \<open>Properties read off the state\<close>

text \<open>The channel-B inversion bit is set in register \<open>r\<close>.\<close>

definition invertB_set :: "machine \<Rightarrow> octrl_reg \<Rightarrow> bool" where
  "invertB_set s r = (octrl s r AND INVERTB = INVERTB)"

text \<open>The four pins carry one frequency.\<close>

definition freq_synced :: "machine \<Rightarrow> bool" where
  "freq_synced s =
     (freq s upperA = freq s upperB \<and> freq s upperB = freq s lowerA \<and> freq s lowerA = freq s lowerB)"

text \<open>Some \<^verbatim>\<open>analogWriteRes\<close> call is in the list of hardware writes.\<close>

fun is_res_write :: "event \<Rightarrow> bool" where
  "is_res_write (AnalogWriteRes _) = True"
| "is_res_write _ = False"

definition res_configured :: "machine \<Rightarrow> bool" where
  "res_configured s = (filter is_res_write (trace s) \<noteq> [])"

text \<open>The hardware writes that running \<open>f\<close> from \<open>s\<close> adds to the trace.\<close>

definition writes_of :: "(machine \<Rightarrow> machine) \<Rightarrow> machine \<Rightarrow> event list" where
  "writes_of f s = drop (length (trace s)) (trace (f s))"

text \<open>
  The start-up order, checked along a list of writes: a duty write needs an earlier
  \<^verbatim>\<open>analogWriteRes\<close> and an earlier frequency write for the same pin; a control-register
  write needs an earlier duty write. The arguments record whether the resolution has been
  written, for which pins the frequency has, and whether some duty has.
\<close>

fun startup_ok :: "bool \<Rightarrow> int list \<Rightarrow> bool \<Rightarrow> event list \<Rightarrow> bool" where
  "startup_ok res fs dty [] = True"
| "startup_ok res fs dty (AnalogWriteRes b # es) = startup_ok True fs dty es"
| "startup_ok res fs dty (AnalogWriteFrequency p f # es) = startup_ok res (p # fs) dty es"
| "startup_ok res fs dty (AnalogWrite p v # es) =
     (res \<and> p \<in> set fs \<and> startup_ok res fs True es)"
| "startup_ok res fs dty (OctrlWrite r v # es) = (dty \<and> startup_ok res fs dty es)"
| "startup_ok res fs dty (PinMode p m # es) = startup_ok res fs dty es"
| "startup_ok res fs dty (DigitalWrite p v # es) = startup_ok res fs dty es"

section \<open>Effect of the functions on each field\<close>

lemma setAmp_octrl:
  "octrl (setAmp amp s) =
     (octrl s)(FLEXPWM4_SM2OCTRL := octrl s FLEXPWM4_SM2OCTRL OR INVERTB,
               FLEXPWM2_SM2OCTRL := octrl s FLEXPWM2_SM2OCTRL OR INVERTB)"
  by (simp add: setAmp_def Let_def octrl_or_def or_into_def analogWrite_def Serial_print_def)

lemma setAmp_duty:
  "duty (setAmp amp s) =
     (duty s)(upperA := uint amp, upperB := uint amp, lowerA := uint amp, lowerB := uint amp)"
  by (simp add: setAmp_def Let_def octrl_or_def analogWrite_def Serial_print_def)

lemma setAmp_freq: "freq (setAmp amp s) = freq s"
  by (simp add: setAmp_def Let_def octrl_or_def analogWrite_def Serial_print_def)

lemma setAmp_serial:
  "serial (setAmp amp s) = serial s @ [CHR 0x0A] @ ''amplitude: '' @ dec (unat amp) @ '' ''"
  by (simp add: setAmp_def Let_def octrl_or_def analogWrite_def Serial_print_def)

lemma setAmp_trace:
  "trace (setAmp amp s) = trace s @
     [AnalogWrite upperA (uint amp), AnalogWrite upperB (uint amp),
      AnalogWrite lowerA (uint amp), AnalogWrite lowerB (uint amp),
      OctrlWrite FLEXPWM4_SM2OCTRL (octrl s FLEXPWM4_SM2OCTRL OR INVERTB),
      OctrlWrite FLEXPWM2_SM2OCTRL (octrl s FLEXPWM2_SM2OCTRL OR INVERTB)]"
  by (simp add: setAmp_def Let_def octrl_or_def or_into_def analogWrite_def Serial_print_def)

lemma setAmp_globals:
  "lastBlink (setAmp amp s) = lastBlink s \<and> ledState (setAmp amp s) = ledState s
   \<and> pin_out (setAmp amp s) = pin_out s"
  by (simp add: setAmp_def Let_def octrl_or_def analogWrite_def Serial_print_def)

lemma setFreq_freq:
  "freq (setFreq frq s) =
     (freq s)(upperA := frq, upperB := frq, lowerA := frq, lowerB := frq)"
  by (simp add: setFreq_def Let_def analogWriteFrequency_def)

lemma setFreq_octrl: "octrl (setFreq frq s) = octrl s"
  by (simp add: setFreq_def Let_def analogWriteFrequency_def)

lemma setFreq_duty: "duty (setFreq frq s) = duty s"
  by (simp add: setFreq_def Let_def analogWriteFrequency_def)

lemma setFreq_trace:
  "trace (setFreq frq s) = trace s @
     [AnalogWriteFrequency upperA frq, AnalogWriteFrequency upperB frq,
      AnalogWriteFrequency lowerA frq, AnalogWriteFrequency lowerB frq]"
  by (simp add: setFreq_def Let_def analogWriteFrequency_def)

lemma showFlexPWMInit_eq:
  "showFlexPWMInit s = s\<lparr>serial := serial s @ report (octrl s)\<rparr>"
  by (simp add: showFlexPWMInit_def Let_def Serial_println_def Serial_print_def report_def)

lemma blink_octrl: "octrl (blink now s) = octrl s"
  by (simp add: blink_def Let_def digitalWrite_def)

lemma blink_freq: "freq (blink now s) = freq s"
  by (simp add: blink_def Let_def digitalWrite_def)

lemma blink_duty: "duty (blink now s) = duty s"
  by (simp add: blink_def Let_def digitalWrite_def)

lemma setup_octrl:
  "octrl (setup_sketch s) =
     (octrl s)(FLEXPWM4_SM2OCTRL := octrl s FLEXPWM4_SM2OCTRL OR INVERTB,
               FLEXPWM2_SM2OCTRL := octrl s FLEXPWM2_SM2OCTRL OR INVERTB)"
  by (simp add: setup_sketch_def Let_def showFlexPWMInit_eq setAmp_octrl setFreq_octrl
      Serial_print_def analogWriteRes_def pinMode_def)

lemma setup_freq:
  "freq (setup_sketch s) =
     (freq s)(upperA := FREQUENCY, upperB := FREQUENCY, lowerA := FREQUENCY, lowerB := FREQUENCY)"
  by (simp add: setup_sketch_def Let_def showFlexPWMInit_eq setAmp_freq setFreq_freq
      Serial_print_def analogWriteRes_def pinMode_def)

lemma setup_trace:
  "trace (setup_sketch s) = trace s @
     [PinMode ledPin OUTPUT, AnalogWriteRes PWMRES,
      AnalogWriteFrequency upperA FREQUENCY, AnalogWriteFrequency upperB FREQUENCY,
      AnalogWriteFrequency lowerA FREQUENCY, AnalogWriteFrequency lowerB FREQUENCY,
      AnalogWrite upperA 127, AnalogWrite upperB 127,
      AnalogWrite lowerA 127, AnalogWrite lowerB 127,
      OctrlWrite FLEXPWM4_SM2OCTRL (octrl s FLEXPWM4_SM2OCTRL OR INVERTB),
      OctrlWrite FLEXPWM2_SM2OCTRL (octrl s FLEXPWM2_SM2OCTRL OR INVERTB)]"
  by (simp add: setup_sketch_def Let_def showFlexPWMInit_eq setAmp_trace setFreq_trace
      setFreq_octrl Serial_print_def analogWriteRes_def pinMode_def PWMSTEPS_def)

lemma hex_val_digit: "n < 16 \<Longrightarrow> hex_val (digit_char n) = n"
proof -
  assume "n < 16"
  then have "n \<in> {..<16}" by simp
  then show ?thesis
    unfolding lessThan_nat_numeral lessThan_Suc pred_numeral_simps lessThan_0 Num.BitM.simps
    by (elim insertE emptyE) (simp_all add: hex_val_def digit_char_def)
qed

lemma nibble_unat: "unat (drop_bit k w AND (0xF :: 16 word)) = (unat w div 2 ^ k) mod 16"
proof -
  have "(0xF :: 16 word) = mask 4"
    by (simp add: mask_eq_exp_minus_1)
  then have "unat (drop_bit k w AND (0xF :: 16 word)) = unat (take_bit 4 (drop_bit k w))"
    by (simp add: take_bit_eq_mask)
  also have "\<dots> = take_bit 4 (drop_bit k (unat w))"
    by (simp add: unsigned_take_bit_eq unat_drop_bit_eq)
  also have "\<dots> = (unat w div 2 ^ k) mod 16"
    by (simp add: take_bit_eq_mod drop_bit_eq_div)
  finally show ?thesis .
qed

lemma nibbles_recompose:
  assumes "x < 65536"
  shows "16 * (16 * (16 * (x div 4096 mod 16) + x div 256 mod 16) + x div 16 mod 16) + x mod 16
         = (x :: nat)"
proof -
  have a: "x div 4096 mod 16 = x div 4096"
    using assms by simp
  have b: "16 * (x div 4096) + x div 256 mod 16 = x div 256"
    using div_mult2_eq [of x 256 16] by simp
  have c: "16 * (x div 256) + x div 16 mod 16 = x div 16"
    using div_mult2_eq [of x 16 16] by simp
  show ?thesis
    by (simp add: a b c)
qed

lemma unhex4_hex4: "unhex4 (hex4 w) = w"
proof -
  have b: "unat w < 65536"
    using unsigned_less [of w, where 'a = nat] by simp
  have "foldl (\<lambda>acc c. 16 * acc + hex_val c) 0 (hex4 w)
      = 16 * (16 * (16 * (unat w div 4096 mod 16) + unat w div 256 mod 16)
          + unat w div 16 mod 16) + unat w mod 16"
    by (simp add: hex4_def nibble_unat hex_val_digit)
  then have "foldl (\<lambda>acc c. 16 * acc + hex_val c) 0 (hex4 w) = unat w"
    by (simp only: nibbles_recompose [OF b])
  then have "unhex4 (hex4 w) = word_of_nat (unat w)"
    by (simp only: unhex4_def)
  then show ?thesis
    by simp
qed

lemma hex4_examples: "hex4 0x0200 = ''0200''" "hex4 0xBEEF = ''BEEF''" "hex4 0 = ''0000''"
  by (simp_all add: hex4_def digit_char_def drop_bit_eq_div)

lemma dec_examples: "dec 0 = ''0''" "dec 127 = ''127''" "dec 65535 = ''65535''"
  by (simp_all add: dec.simps digit_char_def)

text \<open>The order check is not empty: \<open>setAmp\<close> alone, with nothing before it, fails it.\<close>

lemma startup_ok_rejects:
  "\<not> startup_ok False [] False (writes_of (setAmp 127) power_on)"
  by (simp add: writes_of_def setAmp_trace)

lemma freq_synced_exec: "freq_synced s \<Longrightarrow> freq_synced (exec x s)"
  by (cases x)
    (simp_all add: freq_synced_def setup_freq setFreq_freq setAmp_freq showFlexPWMInit_eq blink_freq)

lemma freq_synced_run: "freq_synced s \<Longrightarrow> freq_synced (run xs s)"
  by (induction xs arbitrary: s) (simp_all add: freq_synced_exec)

lemma invertB_or: "(w OR INVERTB) AND INVERTB = INVERTB"
  by (simp add: word_bw_comms word_ao_absorbs)

lemma invertB_set_exec: "invertB_set s r \<Longrightarrow> invertB_set (exec x s) r"
  by (cases x)
    (simp_all add: invertB_set_def setup_octrl setFreq_octrl setAmp_octrl showFlexPWMInit_eq
      blink_octrl invertB_or)

lemma invertB_set_run: "invertB_set s r \<Longrightarrow> invertB_set (run xs s) r"
  by (induction xs arbitrary: s) (simp_all add: invertB_set_exec)

section \<open>The amplitude setter\<close>

text \<open>
  C1. For every duty value \<open>d\<close> with \<open>0 \<le> d < PWMSTEPS\<close>, after \<open>setAmp d\<close> the four
  pins upper A, upper B, lower A and lower B all carry the duty value \<open>d\<close>, and the
  channel-B inversion bit is set in \<open>FLEXPWM4_SM2OCTRL\<close> and in \<open>FLEXPWM2_SM2OCTRL\<close>.
\<close>

theorem setAmp_in_range:
  assumes "uint d < PWMSTEPS"
  shows "duty (setAmp d s) upperA = uint d \<and> duty (setAmp d s) upperB = uint d
       \<and> duty (setAmp d s) lowerA = uint d \<and> duty (setAmp d s) lowerB = uint d
       \<and> invertB_set (setAmp d s) FLEXPWM4_SM2OCTRL
       \<and> invertB_set (setAmp d s) FLEXPWM2_SM2OCTRL"
  by (simp add: setAmp_duty setAmp_octrl invertB_set_def
      upperA_def upperB_def lowerA_def lowerB_def)

theorem setAmp_in_range_witness:
  "uint (127 :: 16 word) < PWMSTEPS
   \<and> duty (setAmp 127 power_on) upperA = 127 \<and> duty (setAmp 127 power_on) upperB = 127
   \<and> duty (setAmp 127 power_on) lowerA = 127 \<and> duty (setAmp 127 power_on) lowerB = 127
   \<and> invertB_set (setAmp 127 power_on) FLEXPWM4_SM2OCTRL
   \<and> invertB_set (setAmp 127 power_on) FLEXPWM2_SM2OCTRL"
proof -
  have h: "uint (127 :: 16 word) < PWMSTEPS"
    by (simp add: PWMSTEPS_def)
  show ?thesis
    using h setAmp_in_range [OF h, of power_on] by simp
qed

text \<open>
  C2, as claimed: a duty value out of range, such as 300 with 256 steps, is rejected and
  the duty values stay as the previous call left them. The sketch does otherwise: after
  \<open>setAmp 127\<close>, the call \<open>setAmp 300\<close> replaces the duty 127 of every pin by 300.
\<close>

theorem setAmp_rejects_counterexample:
  "\<not> uint (300 :: 16 word) < PWMSTEPS
   \<and> duty (setAmp 127 power_on) upperA = 127
   \<and> duty (setAmp 300 (setAmp 127 power_on)) upperA = 300
   \<and> duty (setAmp 300 (setAmp 127 power_on)) upperB = 300
   \<and> duty (setAmp 300 (setAmp 127 power_on)) lowerA = 300
   \<and> duty (setAmp 300 (setAmp 127 power_on)) lowerB = 300
   \<and> duty (setAmp 300 (setAmp 127 power_on)) upperA \<noteq> duty (setAmp 127 power_on) upperA"
  by (simp add: setAmp_duty PWMSTEPS_def upperA_def upperB_def lowerA_def lowerB_def)

text \<open>
  C2, amended. \<open>setAmp\<close> has no range check and no result. For a duty value at or above
  \<open>PWMSTEPS\<close> it does what it does for any other value: it hands the value, unclamped,
  to \<^verbatim>\<open>analogWrite\<close> for each of the four pins, ORs the inversion flag into both control
  registers, and prints nothing but the amplitude line.
\<close>

theorem setAmp_out_of_range:
  assumes "PWMSTEPS \<le> uint amp"
  shows "duty (setAmp amp s) upperA = uint amp \<and> duty (setAmp amp s) upperB = uint amp
       \<and> duty (setAmp amp s) lowerA = uint amp \<and> duty (setAmp amp s) lowerB = uint amp
       \<and> trace (setAmp amp s) = trace s @
           [AnalogWrite upperA (uint amp), AnalogWrite upperB (uint amp),
            AnalogWrite lowerA (uint amp), AnalogWrite lowerB (uint amp),
            OctrlWrite FLEXPWM4_SM2OCTRL (octrl s FLEXPWM4_SM2OCTRL OR INVERTB),
            OctrlWrite FLEXPWM2_SM2OCTRL (octrl s FLEXPWM2_SM2OCTRL OR INVERTB)]
       \<and> serial (setAmp amp s)
           = serial s @ [CHR 0x0A] @ ''amplitude: '' @ dec (unat amp) @ '' ''"
  by (simp add: setAmp_duty setAmp_trace setAmp_serial
      upperA_def upperB_def lowerA_def lowerB_def)

theorem setAmp_out_of_range_witness:
  "PWMSTEPS \<le> uint (300 :: 16 word)
   \<and> duty (setAmp 300 power_on) upperA = 300 \<and> duty (setAmp 300 power_on) upperB = 300
   \<and> duty (setAmp 300 power_on) lowerA = 300 \<and> duty (setAmp 300 power_on) lowerB = 300
   \<and> trace (setAmp 300 power_on) =
        [AnalogWrite 2 300, AnalogWrite 3 300, AnalogWrite 6 300, AnalogWrite 9 300,
         OctrlWrite FLEXPWM4_SM2OCTRL 0x0200, OctrlWrite FLEXPWM2_SM2OCTRL 0x0200]
   \<and> serial (setAmp 300 power_on) = [CHR 0x0A] @ ''amplitude: 300 ''"
proof -
  have h: "PWMSTEPS \<le> uint (300 :: 16 word)"
    by (simp add: PWMSTEPS_def)
  have d: "dec 300 = ''300''"
    by (simp add: dec.simps digit_char_def)
  show ?thesis
    using h setAmp_out_of_range [OF h, of power_on]
    by (simp add: power_on_def upperA_def upperB_def lowerA_def lowerB_def INVERTB_def d)
qed

text \<open>
  C4, as claimed: \<open>setAmp\<close> before any \<^verbatim>\<open>analogWriteRes\<close> fails with a configuration
  error and writes no duty. The sketch does otherwise: in a state whose trace has no
  \<^verbatim>\<open>analogWriteRes\<close>, \<open>setAmp 127\<close> performs the four duty writes and the two register
  writes.
\<close>

theorem setAmp_unconfigured_counterexample:
  "\<not> res_configured power_on
   \<and> duty power_on upperA = 0
   \<and> duty (setAmp 127 power_on) upperA = 127
   \<and> trace (setAmp 127 power_on) =
        [AnalogWrite 2 127, AnalogWrite 3 127, AnalogWrite 6 127, AnalogWrite 9 127,
         OctrlWrite FLEXPWM4_SM2OCTRL 0x0200, OctrlWrite FLEXPWM2_SM2OCTRL 0x0200]"
  by (simp add: setAmp_duty setAmp_trace res_configured_def power_on_def
      upperA_def upperB_def lowerA_def lowerB_def INVERTB_def)

text \<open>
  C4, amended. \<open>setAmp\<close> does not look at whether the resolution has been configured and
  has no error result. Called in a state with no \<^verbatim>\<open>analogWriteRes\<close> behind it, it performs
  its four duty writes and two register writes, leaves the resolution unconfigured, and
  sets the same duty values and register contents as it does after \<^verbatim>\<open>analogWriteRes\<close>.
\<close>

theorem setAmp_unconfigured:
  assumes "\<not> res_configured s"
  shows "trace (setAmp amp s) = trace s @
           [AnalogWrite upperA (uint amp), AnalogWrite upperB (uint amp),
            AnalogWrite lowerA (uint amp), AnalogWrite lowerB (uint amp),
            OctrlWrite FLEXPWM4_SM2OCTRL (octrl s FLEXPWM4_SM2OCTRL OR INVERTB),
            OctrlWrite FLEXPWM2_SM2OCTRL (octrl s FLEXPWM2_SM2OCTRL OR INVERTB)]
       \<and> \<not> res_configured (setAmp amp s)
       \<and> duty (setAmp amp s) = duty (setAmp amp (analogWriteRes bits s))
       \<and> octrl (setAmp amp s) = octrl (setAmp amp (analogWriteRes bits s))"
  using assms
  by (simp add: setAmp_trace setAmp_duty setAmp_octrl res_configured_def analogWriteRes_def)

theorem setAmp_unconfigured_witness:
  "\<not> res_configured power_on
   \<and> trace (setAmp 127 power_on) = trace power_on @
        [AnalogWrite upperA 127, AnalogWrite upperB 127,
         AnalogWrite lowerA 127, AnalogWrite lowerB 127,
         OctrlWrite FLEXPWM4_SM2OCTRL 0x0200, OctrlWrite FLEXPWM2_SM2OCTRL 0x0200]
   \<and> \<not> res_configured (setAmp 127 power_on)"
proof -
  have h: "\<not> res_configured power_on"
    by (simp add: res_configured_def power_on_def)
  show ?thesis
    using h setAmp_unconfigured [OF h, of 127 8]
    by (simp add: power_on_def INVERTB_def)
qed

text \<open>
  C5. ORing \<open>INVERTB\<close> into a control register is idempotent: for every register value,
  doing it twice gives what doing it once gives. Hence a second \<open>setAmp\<close> leaves all
  control registers as the first one left them.
\<close>

theorem invertB_idempotent:
  "or_into INVERTB (or_into INVERTB w) = or_into INVERTB w
   \<and> octrl (octrl_or r INVERTB (octrl_or r INVERTB s)) = octrl (octrl_or r INVERTB s)
   \<and> octrl (setAmp b (setAmp a s)) = octrl (setAmp a s)"
  by (simp add: or_into_def octrl_or_def setAmp_octrl fun_eq_iff word_bw_assocs)

section \<open>The frequency setter\<close>

text \<open>
  C3. For every frequency \<open>f > 0\<close>, after \<open>setFreq f\<close> the four pins of the two
  submodules carry the frequency \<open>f\<close>; and from then on, whatever operations of the
  sketch follow and with whatever arguments, upper and lower array carry one frequency.
  The same holds after \<^verbatim>\<open>setup\<close>, and no operation breaks the agreement in a state that
  has it.
\<close>

theorem setFreq_synced:
  assumes "0 < f"
  shows "freq (setFreq f s) upperA = f \<and> freq (setFreq f s) upperB = f
       \<and> freq (setFreq f s) lowerA = f \<and> freq (setFreq f s) lowerB = f
       \<and> freq_synced (run ops (setFreq f s))
       \<and> freq_synced (run ops (setup_sketch s))
       \<and> (freq_synced s \<longrightarrow> freq_synced (run ops s))"
proof -
  have a: "freq_synced (setFreq f s)"
    by (simp add: freq_synced_def setFreq_freq)
  have b: "freq_synced (setup_sketch s)"
    by (simp add: freq_synced_def setup_freq)
  show ?thesis
    using a b
    by (simp add: setFreq_freq freq_synced_run upperA_def upperB_def lowerA_def lowerB_def)
qed

theorem setFreq_synced_witness:
  "(0 :: real) < 40000
   \<and> freq (setFreq 40000 power_on) upperA = 40000 \<and> freq (setFreq 40000 power_on) upperB = 40000
   \<and> freq (setFreq 40000 power_on) lowerA = 40000 \<and> freq (setFreq 40000 power_on) lowerB = 40000
   \<and> freq_synced (run [SetAmp 127, Blink 600, SetFreq 39500, ShowFlexPWMInit]
        (setFreq 40000 power_on))
   \<and> freq_synced (run [Blink 600] (setup_sketch power_on))
   \<and> freq_synced power_on
   \<and> freq_synced (run [SetAmp 127, Blink 600, SetFreq 39500, ShowFlexPWMInit] power_on)"
proof -
  have h: "(0 :: real) < 40000"
    by simp
  have p: "freq_synced power_on"
    by (simp add: freq_synced_def power_on_def)
  show ?thesis
    using h p
      setFreq_synced [OF h, of power_on "[SetAmp 127, Blink 600, SetFreq 39500, ShowFlexPWMInit]"]
      setFreq_synced [OF h, of power_on "[Blink 600]"]
    by simp
qed

section \<open>The order of the writes at start-up\<close>

text \<open>
  C6. The writes of \<^verbatim>\<open>setup\<close>, in order: the pin mode of the LED, the PWM resolution, the
  frequency of the four pins, the duty of the four pins, the inversion flag of the two
  submodules. So the resolution is written before any duty, the frequency of each pin
  before its duty, and the inversion flags after the duty; within \<open>setAmp\<close> the four duty
  writes come before the two flag writes.
\<close>

theorem setup_write_order:
  "writes_of setup_sketch s =
     [PinMode ledPin OUTPUT, AnalogWriteRes PWMRES,
      AnalogWriteFrequency upperA FREQUENCY, AnalogWriteFrequency upperB FREQUENCY,
      AnalogWriteFrequency lowerA FREQUENCY, AnalogWriteFrequency lowerB FREQUENCY,
      AnalogWrite upperA 127, AnalogWrite upperB 127,
      AnalogWrite lowerA 127, AnalogWrite lowerB 127,
      OctrlWrite FLEXPWM4_SM2OCTRL (octrl s FLEXPWM4_SM2OCTRL OR INVERTB),
      OctrlWrite FLEXPWM2_SM2OCTRL (octrl s FLEXPWM2_SM2OCTRL OR INVERTB)]
   \<and> startup_ok False [] False (writes_of setup_sketch s)
   \<and> writes_of (setAmp amp) s =
     [AnalogWrite upperA (uint amp), AnalogWrite upperB (uint amp),
      AnalogWrite lowerA (uint amp), AnalogWrite lowerB (uint amp),
      OctrlWrite FLEXPWM4_SM2OCTRL (octrl s FLEXPWM4_SM2OCTRL OR INVERTB),
      OctrlWrite FLEXPWM2_SM2OCTRL (octrl s FLEXPWM2_SM2OCTRL OR INVERTB)]"
  by (simp add: writes_of_def setup_trace setAmp_trace)

section \<open>The heartbeat\<close>

text \<open>
  C7. With \<open>blinkDuration = 500\<close> and \<open>lastBlink = 0\<close>, the calls of \<open>blink\<close> at the
  times 0, 400 and 600: the first two change nothing, the third toggles \<open>ledState\<close>,
  writes the new level to the LED pin and sets \<open>lastBlink\<close> to 600.
\<close>

theorem blink_scenario:
  assumes "lastBlink s = 0"
  shows "blink 0 s = s \<and> blink 400 (blink 0 s) = s
       \<and> ledState (blink 600 (blink 400 (blink 0 s))) = lnot (ledState s)
       \<and> lastBlink (blink 600 (blink 400 (blink 0 s))) = 600
       \<and> pin_out (blink 600 (blink 400 (blink 0 s))) ledPin = lnot (ledState s)
       \<and> blink 600 (blink 400 (blink 0 s)) \<noteq> s"
proof -
  have a: "blink 0 s = s"
    using assms by (simp add: blink_def blinkDuration_def)
  have b: "blink 400 s = s"
    using assms by (simp add: blink_def blinkDuration_def)
  have c: "blink 600 s
      = digitalWrite ledPin (lnot (ledState s)) (s\<lparr>lastBlink := 600, ledState := lnot (ledState s)\<rparr>)"
    using assms by (simp add: blink_def blinkDuration_def Let_def)
  have d: "lastBlink (blink 600 s) \<noteq> lastBlink s"
    using assms by (simp add: c digitalWrite_def)
  have e: "blink 600 s \<noteq> s"
    using d by auto
  show ?thesis
    using e by (simp add: a b c digitalWrite_def)
qed

theorem blink_scenario_witness:
  "lastBlink power_on = 0
   \<and> blink 0 power_on = power_on \<and> blink 400 (blink 0 power_on) = power_on
   \<and> ledState (blink 600 (blink 400 (blink 0 power_on))) = HIGH
   \<and> lastBlink (blink 600 (blink 400 (blink 0 power_on))) = 600
   \<and> pin_out (blink 600 (blink 400 (blink 0 power_on))) ledPin = HIGH"
proof -
  have h: "lastBlink power_on = 0"
    by (simp add: power_on_def)
  have l: "lnot (ledState power_on) = HIGH"
    by (simp add: power_on_def lnot_def LOW_def HIGH_def)
  show ?thesis
    using h l blink_scenario [OF h] by auto
qed

section \<open>The diagnostic dump\<close>

text \<open>
  C8. \<open>showFlexPWMInit\<close> only reads: it appends to the serial output the report of the
  eight control registers, each as four hexadecimal digits from which the 16-bit value
  can be read back, and leaves the control registers, the duty values, the frequencies,
  the pin levels, the heartbeat state and the list of hardware writes as they were.
\<close>

theorem showFlexPWMInit_pure_read:
  "showFlexPWMInit s = s\<lparr>serial := serial s @ report (octrl s)\<rparr>
   \<and> serial (showFlexPWMInit s) = serial s @ report (octrl s)
   \<and> octrl (showFlexPWMInit s) = octrl s
   \<and> duty (showFlexPWMInit s) = duty s
   \<and> freq (showFlexPWMInit s) = freq s
   \<and> pin_out (showFlexPWMInit s) = pin_out s
   \<and> lastBlink (showFlexPWMInit s) = lastBlink s
   \<and> ledState (showFlexPWMInit s) = ledState s
   \<and> trace (showFlexPWMInit s) = trace s
   \<and> unhex4 (hex4 (octrl s r)) = octrl s r"
  by (simp add: showFlexPWMInit_eq unhex4_hex4)

section \<open>The inversion bit\<close>

text \<open>
  C9. \<open>setAmp\<close> changes nothing in the control registers but bit \<open>0x0200\<close> of
  \<open>FLEXPWM4_SM2OCTRL\<close> and \<open>FLEXPWM2_SM2OCTRL\<close>: those two get the flag ORed in, every
  other bit of every register keeps its value, and every other register keeps its value.
\<close>

theorem setAmp_octrl_frame:
  "octrl (setAmp amp s) FLEXPWM4_SM2OCTRL = octrl s FLEXPWM4_SM2OCTRL OR INVERTB
   \<and> octrl (setAmp amp s) FLEXPWM2_SM2OCTRL = octrl s FLEXPWM2_SM2OCTRL OR INVERTB
   \<and> octrl (setAmp amp s) r AND NOT INVERTB = octrl s r AND NOT INVERTB
   \<and> (r \<noteq> FLEXPWM4_SM2OCTRL \<and> r \<noteq> FLEXPWM2_SM2OCTRL \<longrightarrow> octrl (setAmp amp s) r = octrl s r)"
proof -
  have m: "(w OR INVERTB) AND NOT INVERTB = w AND NOT INVERTB" for w
    by (simp add: bit_eq_iff bit_simps) blast
  show ?thesis
    by (simp add: setAmp_octrl m)
qed

theorem setAmp_octrl_frame_witness:
  "octrl (setAmp 127 (power_on\<lparr>octrl := (\<lambda>_. 0x1234)\<rparr>)) FLEXPWM4_SM2OCTRL = 0x1234
   \<and> octrl (setAmp 127 (power_on\<lparr>octrl := (\<lambda>_. 0x0034)\<rparr>)) FLEXPWM2_SM2OCTRL = 0x0234
   \<and> FLEXPWM4_SM3OCTRL \<noteq> FLEXPWM4_SM2OCTRL \<and> FLEXPWM4_SM3OCTRL \<noteq> FLEXPWM2_SM2OCTRL
   \<and> octrl (setAmp 127 (power_on\<lparr>octrl := (\<lambda>_. 0x0034)\<rparr>)) FLEXPWM4_SM3OCTRL = 0x0034"
  using setAmp_octrl_frame [of 127 "power_on\<lparr>octrl := (\<lambda>_. 0x1234)\<rparr>" FLEXPWM4_SM3OCTRL]
    setAmp_octrl_frame [of 127 "power_on\<lparr>octrl := (\<lambda>_. 0x0034)\<rparr>" FLEXPWM4_SM3OCTRL]
  by (simp add: INVERTB_def)

text \<open>
  C10. Once the inversion bit of a control register is set, it stays set through every
  operation of the sketch (\<open>setFreq\<close>, \<open>setAmp\<close>, \<open>showFlexPWMInit\<close>, \<open>blink\<close>, also
  \<^verbatim>\<open>setup\<close>) and so in every state reached by a sequence of them.
\<close>

theorem invertB_never_cleared:
  assumes "invertB_set s r"
  shows "invertB_set (setFreq frq s) r \<and> invertB_set (setAmp amp s) r
       \<and> invertB_set (showFlexPWMInit s) r \<and> invertB_set (blink now s) r
       \<and> invertB_set (setup_sketch s) r \<and> invertB_set (run ops s) r"
  using assms invertB_set_exec [of s r "SetFreq frq"] invertB_set_exec [of s r "SetAmp amp"]
    invertB_set_exec [of s r ShowFlexPWMInit] invertB_set_exec [of s r "Blink now"]
    invertB_set_exec [of s r Setup] invertB_set_run [of s r ops]
  by simp

theorem invertB_never_cleared_witness:
  "invertB_set (setAmp 127 power_on) FLEXPWM4_SM2OCTRL
   \<and> invertB_set (run [SetFreq 39500, Blink 600, ShowFlexPWMInit, SetAmp 0, Setup]
        (setAmp 127 power_on)) FLEXPWM4_SM2OCTRL"
proof -
  have h: "invertB_set (setAmp 127 power_on) FLEXPWM4_SM2OCTRL"
    by (simp add: invertB_set_def setAmp_octrl invertB_or)
  show ?thesis
    using h invertB_never_cleared [OF h,
        of _ _ _ "[SetFreq 39500, Blink 600, ShowFlexPWMInit, SetAmp 0, Setup]"]
    by simp
qed

end
